theory Spec2Isabelle
  imports Main
begin

section \<open>JSON values\<close>

text \<open>
  The values \<open>JSON.parse\<close> yields (\<open>context.req.json()\<close>, \<open>response.json()\<close>). The type
  \<open>'n\<close> of numbers is a parameter: the program only passes numbers on and prints them, so
  nothing depends on their arithmetic. A \<open>JNum\<close> is never \<open>NaN\<close> (JSON has no such literal).
  An object is the list of its properties; a property is read by its first binding.
  Strings are byte strings (UTF-8), so every string is well formed.
\<close>

datatype 'n json =
    JNull
  | JBool bool
  | JNum 'n
  | JStr string
  | JArr "'n json list"
  | JObj "(string \<times> 'n json) list"

fun field :: "string \<Rightarrow> 'n json \<Rightarrow> 'n json option" where
  "field key (JObj properties) = map_of properties key"
| "field key _ = None"

section \<open>The zod schemas the program uses\<close>

text \<open>
  \<open>index.ts\<close> builds its schemas from \<open>z.string()\<close>, \<open>z.number()\<close>, \<open>z.enum([...])\<close>,
  \<open>z.array(...)\<close> and \<open>z.object({...})\<close>, with no refinement (no \<open>.min\<close>, no
  \<open>.optional\<close>) anywhere. \<open>parse\<close> is zod's \<open>schema.parse\<close> on these: an object schema
  wants an object, checks each key of its shape (a missing key is the input
  \<open>undefined\<close>, here \<open>None\<close>), and drops the keys the shape does not name; an array schema
  wants an array and checks every element; all issues are collected, in the order of the
  shape. A failed parse throws a \<open>ZodError\<close> holding the issues.
\<close>

datatype schema =
    ZString
  | ZNumber
  | ZEnum "string list"
  | ZArray schema
  | ZObject "(string \<times> schema) list"

datatype pathElem = Key string | Index nat

datatype zodIssue =
    invalid_type string string "pathElem list"
  | invalid_enum_value string "string list" "pathElem list"

fun getParsedType :: "'n json option \<Rightarrow> string" where
  "getParsedType None = ''undefined''"
| "getParsedType (Some JNull) = ''null''"
| "getParsedType (Some (JBool _)) = ''boolean''"
| "getParsedType (Some (JNum _)) = ''number''"
| "getParsedType (Some (JStr _)) = ''string''"
| "getParsedType (Some (JArr _)) = ''array''"
| "getParsedType (Some (JObj _)) = ''object''"

text \<open>The issues of all parts when one part fails, the values of all parts otherwise.\<close>

fun collect :: "(zodIssue list + 'a) list \<Rightarrow> zodIssue list + 'a list" where
  "collect [] = Inr []"
| "collect (r # rs) =
     (case (r, collect rs) of
        (Inr v, Inr vs) \<Rightarrow> Inr (v # vs)
      | (Inr _, Inl later) \<Rightarrow> Inl later
      | (Inl issues, Inr _) \<Rightarrow> Inl issues
      | (Inl issues, Inl later) \<Rightarrow> Inl (issues @ later))"

definition joinValues :: "string list \<Rightarrow> string" where
  "joinValues vs =
     concat (case map (\<lambda>v. [CHR 0x27] @ v @ [CHR 0x27]) vs of
               [] \<Rightarrow> []
             | q # qs \<Rightarrow> q # map (\<lambda>x. '' | '' @ x) qs)"

fun parse :: "schema \<Rightarrow> pathElem list \<Rightarrow> 'n json option \<Rightarrow> zodIssue list + 'n json" where
  "parse ZString path input =
     (case input of
        Some (JStr s) \<Rightarrow> Inr (JStr s)
      | _ \<Rightarrow> Inl [invalid_type ''string'' (getParsedType input) path])"
| "parse ZNumber path input =
     (case input of
        Some (JNum n) \<Rightarrow> Inr (JNum n)
      | _ \<Rightarrow> Inl [invalid_type ''number'' (getParsedType input) path])"
| "parse (ZEnum vs) path input =
     (case input of
        Some (JStr s) \<Rightarrow>
          if s \<in> set vs then Inr (JStr s) else Inl [invalid_enum_value s vs path]
      | _ \<Rightarrow> Inl [invalid_type (joinValues vs) (getParsedType input) path])"
| "parse (ZArray element) path input =
     (case input of
        Some (JArr items) \<Rightarrow>
          map_sum id JArr
            (collect (map (\<lambda>(i, item). parse element (path @ [Index i]) (Some item))
                       (enumerate 0 items)))
      | _ \<Rightarrow> Inl [invalid_type ''array'' (getParsedType input) path])"
| "parse (ZObject shape) path input =
     (case input of
        Some (JObj properties) \<Rightarrow>
          map_sum id (\<lambda>vs. JObj (zip (map fst shape) vs))
            (collect (map (\<lambda>(key, s). parse s (path @ [Key key]) (map_of properties key))
                       shape))
      | _ \<Rightarrow> Inl [invalid_type ''object'' (getParsedType input) path])"

section \<open>Section 1 of index.ts: types and schemas\<close>

record userContext =
  userName :: string
  userRole :: string

datatype temperatureUnit = celsius | fahrenheit

fun unitName :: "temperatureUnit \<Rightarrow> string" where
  "unitName celsius = ''celsius''"
| "unitName fahrenheit = ''fahrenheit''"

definition depsSchema :: schema where
  "depsSchema = ZObject
     [(''weatherApiKey'', ZString),
      (''temperatureUnit'', ZEnum [''celsius'', ''fahrenheit'']),
      (''userName'', ZString),
      (''userRole'', ZString)]"

text \<open>
  \<open>DependenciesType = z.infer<typeof depsSchema>\<close>. The record extends \<open>userContext\<close>, whose
  two fields it shares by name; \<open>dependenciesJson\<close> is the object a bag is at run time, in
  the order the handler writes it.
\<close>

record dependencies = userContext +
  weatherApiKey :: string
  temperatureUnit :: temperatureUnit

definition dependenciesJson :: "dependencies \<Rightarrow> 'n json" where
  "dependenciesJson d = JObj
     [(''weatherApiKey'', JStr (weatherApiKey d)),
      (''temperatureUnit'', JStr (unitName (temperatureUnit d))),
      (''userName'', JStr (userName d)),
      (''userRole'', JStr (userRole d))]"

section \<open>What the program throws, and the library functions it calls\<close>

text \<open>
  \<open>Error\<close>, \<open>SyntaxError\<close> (a body that is not JSON), \<open>TypeError\<close> and \<open>ZodError\<close> are
  instances of \<open>Error\<close>; \<open>NotAnError\<close> is any other thrown value. In the words of the
  specification: a \<open>ZodError\<close> is a ValidationError, the \<open>Error\<close> of the missing key is the
  ConfigurationError, the \<open>Error\<close> of a failed fetch is the UpstreamError.
\<close>

datatype thrown =
    Error string
  | SyntaxError string
  | TypeError string
  | ZodError "zodIssue list"
  | NotAnError

text \<open>
  Two library functions are parameters of the model: \<open>Number.prototype.toString\<close> (the
  template literal of line 70) and the getter \<open>ZodError.message\<close>.
\<close>

record 'n runtime =
  numberToString :: "'n \<Rightarrow> string"
  zodMessage :: "zodIssue list \<Rightarrow> string"

text \<open>\<open>error instanceof Error ? error.message : "Unknown error"\<close> (line 211).\<close>

fun catchMessage :: "'n runtime \<Rightarrow> thrown \<Rightarrow> string" where
  "catchMessage rt (Error message) = message"
| "catchMessage rt (SyntaxError message) = message"
| "catchMessage rt (TypeError message) = message"
| "catchMessage rt (ZodError issues) = zodMessage rt issues"
| "catchMessage rt NotAnError = ''Unknown error''"

text \<open>
  \<open>encodeURIComponent\<close> on UTF-8 bytes: the unreserved characters stay, every other byte
  becomes \<open>%XX\<close>.
\<close>

definition uriUnreserved :: "char \<Rightarrow> bool" where
  "uriUnreserved c \<longleftrightarrow>
     c \<in> set (''ABCDEFGHIJKLMNOPQRSTUVWXYZabcdefghijklmnopqrstuvwxyz0123456789-_.!~*()''
              @ [CHR 0x27])"

definition hexDigit :: "nat \<Rightarrow> char" where
  "hexDigit n = ''0123456789ABCDEF'' ! (n mod 16)"

definition encodeURIComponent :: "string \<Rightarrow> string" where
  "encodeURIComponent s =
     concat (map (\<lambda>c. if uriUnreserved c then [c]
                      else [CHR ''%'', hexDigit (of_char c div 16), hexDigit (of_char c mod 16)])
               s)"

section \<open>Section 2 of index.ts: the weather service\<close>

text \<open>
  Both a Hono request and a fetch response have a \<open>json()\<close> method; \<open>Inl\<close> is the message
  of the \<open>SyntaxError\<close> it rejects with when the body is not JSON.
\<close>

record 'n body =
  json :: "string + 'n json"

record 'n response = "'n body" +
  ok :: bool
  statusText :: string

record 'n weatherReport =
  location :: string
  temperature :: 'n
  conditions :: string
  humidity :: string
  unit :: temperatureUnit

definition dataSchema :: schema where
  "dataSchema = ZObject
     [(''name'', ZString),
      (''main'', ZObject [(''temp'', ZNumber), (''humidity'', ZNumber)]),
      (''weather'', ZArray (ZObject [(''description'', ZString)]))]"

definition weatherUrl :: "string \<Rightarrow> string \<Rightarrow> temperatureUnit \<Rightarrow> string" where
  "weatherUrl locationArg keyArg unitArg =
     (let units = (if unitArg = celsius then ''metric'' else ''imperial'');
          loc = encodeURIComponent locationArg
      in ''https://api.openweathermap.org/data/2.5/weather?q='' @ loc
           @ ''&appid='' @ keyArg @ ''&units='' @ units)"

text \<open>
  \<open>data.weather[0]?.description ?? "unknown"\<close> (line 69), on the elements of the parsed
  \<open>weather\<close>, each of which has a string \<open>description\<close>.
\<close>

fun conditionsOf :: "'n json list \<Rightarrow> string" where
  "conditionsOf [] = ''unknown''"
| "conditionsOf (first # _) =
     (case field ''description'' first of Some (JStr text) \<Rightarrow> text
      | _ \<Rightarrow> ''unknown'')"

text \<open>
  \<open>fetchWeather\<close> (lines 38 to 73). The provider is the parameter \<open>fetch\<close>, from the URL to
  the response or to what \<open>fetch\<close> rejects with; the state is the list of the URLs
  requested so far, which is all the function leaves behind; \<open>locationArg\<close>, \<open>keyArg\<close>
  and \<open>unitArg\<close> are the source's \<open>location\<close>, \<open>weatherApiKey\<close> and
  \<open>temperatureUnit\<close>, names the records' fields have here. The parsed \<open>data\<close> has the
  type zod infers from \<open>dataSchema\<close>, read here by the pattern; the last branch is what
  JavaScript does with a \<open>data\<close> of another shape, and \<open>fetchWeather_TypeError\<close> shows
  that it is never taken.
\<close>

definition fetchWeather ::
  "'n runtime \<Rightarrow> (string \<Rightarrow> thrown + 'n response) \<Rightarrow> string \<Rightarrow> string \<Rightarrow> temperatureUnit
     \<Rightarrow> string list \<Rightarrow> (thrown + 'n weatherReport) \<times> string list" where
  "fetchWeather rt fetch locationArg keyArg unitArg requested =
     (let url = weatherUrl locationArg keyArg unitArg;
          requested' = requested @ [url]
      in case fetch url of
           Inl rejection \<Rightarrow> (Inl rejection, requested')
         | Inr response \<Rightarrow>
             if \<not> ok response
             then (Inl (Error (''Error fetching weather: '' @ statusText response)), requested')
             else
               (case json response of
                  Inl message \<Rightarrow> (Inl (SyntaxError message), requested')
                | Inr raw \<Rightarrow>
                    (case parse dataSchema [] (Some raw) of
                       Inl issues \<Rightarrow> (Inl (ZodError issues), requested')
                     | Inr (JObj [(_, JStr dataName),
                                  (_, JObj [(_, JNum dataTemp), (_, JNum dataHumidity)]),
                                  (_, JArr dataWeather)]) \<Rightarrow>
                         (Inr \<lparr>location = dataName,
                               temperature = dataTemp,
                               conditions = conditionsOf dataWeather,
                               humidity = numberToString rt dataHumidity @ ''%'',
                               unit = unitArg\<rparr>, requested')
                     | Inr _ \<Rightarrow>
                         (Inl (TypeError ''Cannot read properties of undefined''),
                          requested'))))"

section \<open>Section 3 of index.ts: the tool and the agent\<close>

text \<open>
  \<open>createTool({...})\<close> of lines 79 to 92. \<open>execute\<close> receives \<open>context.location\<close>, the one
  field of the tool's input, and the dependencies of the call. (\<open>dependenciesSchema\<close> is a
  field of the tool and of the agent.)
\<close>

record injected =
  dependenciesSchema :: schema

record 'n tool = injected +
  toolId :: string
  description :: string
  inputSchema :: schema
  execute :: "string \<Rightarrow> dependencies \<Rightarrow> string list
                \<Rightarrow> (thrown + 'n weatherReport) \<times> string list"

definition weatherTool :: "'n runtime \<Rightarrow> (string \<Rightarrow> thrown + 'n response) \<Rightarrow> 'n tool" where
  "weatherTool rt fetch =
     \<lparr>dependenciesSchema = depsSchema,
      toolId = ''getWeatherForecast'',
      description = ''Get the current weather forecast for a location'',
      inputSchema = ZObject [(''location'', ZString)],
      execute = (\<lambda>locationArg d.
        fetchWeather rt fetch locationArg (weatherApiKey d) (temperatureUnit d))\<rparr>"

fun joinLines :: "string list \<Rightarrow> string" where
  "joinLines [] = []"
| "joinLines [l] = l"
| "joinLines (l # ls) = l @ [CHR 0x0A] @ joinLines ls"

text \<open>
  \<open>buildInstructions\<close> (lines 94 to 142), line by line; the bytes that are not ASCII are
  those of the source file.
\<close>

definition buildInstructions :: "dependencies \<Rightarrow> string" where
  "buildInstructions d = joinLines
     [''You are an agent that can fetch weather information. '',
      '''',
      ''<user_context>'',
      ''  <name>'' @ userName d @ ''</name>'',
      ''  <role>'' @ userRole d @ ''</role>'',
      ''  <preferences>'',
      ''    <temperature_unit>'' @ unitName (temperatureUnit d) @ ''</temperature_unit>'',
      ''  </preferences>'',
      ''</user_context>'',
      '''',
      ''<instructions>'',
      ''  1. Always start with a personalized greeting that includes the user'' @ [CHR 0x27]
          @ ''s name and role'',
      ''  2. Use the getWeatherForecast tool to fetch current weather data'',
      ''  3. Format your response with temperature in '' @ unitName (temperatureUnit d),
      ''  4. Include all available data: temperature, conditions, and humidity'',
      ''  5. Keep responses friendly but concise'',
      ''</instructions>'',
      '''',
      ''<examples>'',
      ''  <example>'',
      ''    <user_query>What is the weather in New York?</user_query>'',
      ''    <response>'',
      ''      Hello Alice (admin)! I'' @ [CHR 0x27] @
          ''d be happy to check the weather in New York for you.'',
      ''      '',
      ''      Current conditions in New York:'',
      ''      '' @ [CHR 0xEF, CHR 0xA3, CHR 0xBF, CHR 0xC3, CHR 0xBC, CHR 0xC3, CHR 0xA5,
          CHR 0xC2, CHR 0xB0, CHR 0xC3, CHR 0x94, CHR 0xE2, CHR 0x88, CHR 0x8F, CHR 0xC3,
          CHR 0xA8] @ '' Temperature: 72'' @ [CHR 0xC2, CHR 0xAC, CHR 0xE2, CHR 0x88,
          CHR 0x9E] @ ''F'',
      ''      '' @ [CHR 0xEF, CHR 0xA3, CHR 0xBF, CHR 0xC3, CHR 0xBC, CHR 0xC3, CHR 0xA5,
          CHR 0xC2, CHR 0xA7, CHR 0xC3, CHR 0x94, CHR 0xE2, CHR 0x88, CHR 0x8F, CHR 0xC3,
          CHR 0xA8] @ '' Conditions: partly cloudy'',
      ''      '' @ [CHR 0xEF, CHR 0xA3, CHR 0xBF, CHR 0xC3, CHR 0xBC, CHR 0xC3, CHR 0xAD,
          CHR 0xC3, CHR 0x9F] @ '' Humidity: 65%'',
      ''      '',
      ''      Is there anything else you'' @ [CHR 0x27] @
          ''d like to know about the weather?'',
      ''    </response>'',
      ''  </example>'',
      ''  '',
      ''  <example>'',
      ''    <user_query>How'' @ [CHR 0x27] @ ''s the weather in Tokyo?</user_query>'',
      ''    <response>'',
      ''      Hi John (guest)! Let me get the current weather information for Tokyo.'',
      ''      '',
      ''      Current conditions in Tokyo:'',
      ''      '' @ [CHR 0xEF, CHR 0xA3, CHR 0xBF, CHR 0xC3, CHR 0xBC, CHR 0xC3, CHR 0xA5,
          CHR 0xC2, CHR 0xB0, CHR 0xC3, CHR 0x94, CHR 0xE2, CHR 0x88, CHR 0x8F, CHR 0xC3,
          CHR 0xA8] @ '' Temperature: 26'' @ [CHR 0xC2, CHR 0xAC, CHR 0xE2, CHR 0x88,
          CHR 0x9E] @ ''C'',
      ''      '' @ [CHR 0xE2, CHR 0x80, CHR 0x9A, CHR 0xC3, CHR 0xB2, CHR 0xC3, CHR 0x84,
          CHR 0xC3, CHR 0x94, CHR 0xE2, CHR 0x88, CHR 0x8F, CHR 0xC3, CHR 0xA8] @
          '' Conditions: clear sky'',
      ''      '' @ [CHR 0xEF, CHR 0xA3, CHR 0xBF, CHR 0xC3, CHR 0xBC, CHR 0xC3, CHR 0xAD,
          CHR 0xC3, CHR 0x9F] @ '' Humidity: 48%'',
      ''      '',
      ''      Would you like weather information for any other location?'',
      ''    </response>'',
      ''  </example>'',
      ''</examples>'']"

text \<open>
  The agent of lines 144 to 150. What \<open>agent.generate\<close> does with it (the language model,
  whether and how often it calls the tool, with which location) is outside the
  repository: \<open>generate\<close> is a parameter of the handler, given the agent, the prompt, the
  dependencies and the state, and returning the text or what it throws.
\<close>

record 'n agent = injected +
  agentName :: string
  instructions :: "dependencies \<Rightarrow> string"
  model :: string
  tools :: "(string \<times> 'n tool) list"

definition agent :: "'n runtime \<Rightarrow> (string \<Rightarrow> thrown + 'n response) \<Rightarrow> 'n agent" where
  "agent rt fetch =
     \<lparr>dependenciesSchema = depsSchema,
      agentName = ''WeatherAgent'',
      instructions = buildInstructions,
      model = ''gpt-4o'',
      tools = [(''weatherTool'', weatherTool rt fetch)]\<rparr>"

section \<open>Sections 4 to 6 of index.ts: the server\<close>

record 'n request = "'n body" +
  header :: "string \<Rightarrow> string option"

record 'n honoContext =
  req :: "'n request"
  var :: "userContext option"

record 'n httpResponse =
  status :: nat
  responseJson :: "'n json"

text \<open>The middleware of lines 164 to 172; \<open>next()\<close> is the handler below.\<close>

definition userContextMiddleware :: "'n honoContext \<Rightarrow> 'n honoContext" where
  "userContextMiddleware ctx =
     ctx\<lparr>var := Some
       \<lparr>userName = (case header (req ctx) ''X-User-Name'' of
                       Some v \<Rightarrow> v | None \<Rightarrow> ''Anonymous''),
        userRole = (case header (req ctx) ''X-User-Role'' of
                       Some v \<Rightarrow> v | None \<Rightarrow> ''guest'')\<rparr>\<rparr>"

definition querySchema :: schema where
  "querySchema = ZObject [(''location'', ZString)]"

text \<open>
  The \<open>try\<close> block of the handler (lines 183 to 205): \<open>Inl\<close> is what it throws. \<open>env\<close> is
  \<open>process.env\<close>; \<open>!apiKey\<close> holds of an unset variable and of an empty one. The two
  \<open>TypeError\<close> branches are what the typed source excludes: a parsed query of another
  shape (never, by \<open>parse_querySchema_Inr\<close>) and a context the middleware has not run on.
\<close>

definition postWeatherTry ::
  "'n runtime \<Rightarrow> (string \<Rightarrow> thrown + 'n response)
     \<Rightarrow> ('n agent \<Rightarrow> string \<Rightarrow> dependencies \<Rightarrow> string list \<Rightarrow> (thrown + string) \<times> string list)
     \<Rightarrow> (string \<Rightarrow> string option) \<Rightarrow> 'n honoContext \<Rightarrow> 'n json \<Rightarrow> string list
     \<Rightarrow> (thrown + 'n httpResponse) \<times> string list" where
  "postWeatherTry rt fetch generate env ctx reqBody requested =
     (case parse querySchema [] (Some reqBody) of
        Inl issues \<Rightarrow> (Inl (ZodError issues), requested)
      | Inr (JObj [(_, JStr locationArg)]) \<Rightarrow>
          (case env ''WEATHER_API_KEY'' of
             None \<Rightarrow>
               (Inl (Error ''Missing WEATHER_API_KEY environment variable''), requested)
           | Some apiKey \<Rightarrow>
               if apiKey = []
               then (Inl (Error ''Missing WEATHER_API_KEY environment variable''), requested)
               else
                 (case var ctx of
                    None \<Rightarrow>
                      (Inl (TypeError ''Cannot read properties of undefined''), requested)
                  | Some user \<Rightarrow>
                      (let dependencies =
                             \<lparr>userName = userName user,
                              userRole = userRole user,
                              weatherApiKey = apiKey,
                              temperatureUnit = fahrenheit\<rparr>
                       in case generate (agent rt fetch)
                                 (''What is the weather in '' @ locationArg @ ''?'')
                                 dependencies requested of
                            (Inl error, requested') \<Rightarrow> (Inl error, requested')
                          | (Inr text, requested') \<Rightarrow>
                              (Inr \<lparr>status = 200,
                                    responseJson = JObj [(''success'', JBool True),
                                                         (''message'', JStr text)]\<rparr>,
                               requested'))))
      | Inr _ \<Rightarrow> (Inl (TypeError ''Cannot read properties of undefined''), requested))"

text \<open>
  The handler of \<open>app.post("/weather", ...)\<close> (lines 178 to 216). \<open>context.req.json()\<close>
  stands before the \<open>try\<close>: when it rejects, the handler throws (\<open>Inl\<close>) and nothing of
  the handler answers the request. Whatever the \<open>try\<close> block throws is answered by the
  \<open>catch\<close> with status 400.
\<close>

definition postWeather ::
  "'n runtime \<Rightarrow> (string \<Rightarrow> thrown + 'n response)
     \<Rightarrow> ('n agent \<Rightarrow> string \<Rightarrow> dependencies \<Rightarrow> string list \<Rightarrow> (thrown + string) \<times> string list)
     \<Rightarrow> (string \<Rightarrow> string option) \<Rightarrow> 'n honoContext \<Rightarrow> string list
     \<Rightarrow> (thrown + 'n httpResponse) \<times> string list" where
  "postWeather rt fetch generate env ctx requested =
     (case json (req ctx) of
        Inl message \<Rightarrow> (Inl (SyntaxError message), requested)
      | Inr reqBody \<Rightarrow>
          (case postWeatherTry rt fetch generate env ctx reqBody requested of
             (Inr answer, requested') \<Rightarrow> (Inr answer, requested')
           | (Inl error, requested') \<Rightarrow>
               (Inr \<lparr>status = 400,
                     responseJson = JObj [(''success'', JBool False),
                                          (''error'', JStr (catchMessage rt error))]\<rparr>,
                requested')))"

text \<open>A request to \<open>POST /weather\<close>: the middleware, then the handler.\<close>

definition app ::
  "'n runtime \<Rightarrow> (string \<Rightarrow> thrown + 'n response)
     \<Rightarrow> ('n agent \<Rightarrow> string \<Rightarrow> dependencies \<Rightarrow> string list \<Rightarrow> (thrown + string) \<times> string list)
     \<Rightarrow> (string \<Rightarrow> string option) \<Rightarrow> 'n request \<Rightarrow> string list
     \<Rightarrow> (thrown + 'n httpResponse) \<times> string list" where
  "app rt fetch generate env request requested =
     postWeather rt fetch generate env
       (userContextMiddleware \<lparr>req = request, var = None\<rparr>) requested"

section \<open>Concrete library functions, for the closed examples\<close>

text \<open>
  \<open>Number.prototype.toString\<close> on an integer below \<open>10^21\<close> in magnitude: its decimal
  digits. \<open>issuesMessage\<close> stands for \<open>ZodError.message\<close> in the examples: the message zod
  gives each issue, one per line (zod itself prints the issues as JSON).
\<close>

fun digitsOf :: "nat \<Rightarrow> string" where
  "digitsOf n =
     (if n < 10 then [''0123456789'' ! n]
      else digitsOf (n div 10) @ [''0123456789'' ! (n mod 10)])"

declare digitsOf.simps [simp del]

definition integerToString :: "int \<Rightarrow> string" where
  "integerToString i = (if i < 0 then CHR ''-'' # digitsOf (nat (- i)) else digitsOf (nat i))"

fun issueMessage :: "zodIssue \<Rightarrow> string" where
  "issueMessage (invalid_type expected received path) =
     (if received = ''undefined'' then ''Required''
      else ''Expected '' @ expected @ '', received '' @ received)"
| "issueMessage (invalid_enum_value received options path) =
     ''Invalid enum value. Expected '' @ joinValues options @ '', received ''
       @ [CHR 0x27] @ received @ [CHR 0x27]"

definition issuesMessage :: "zodIssue list \<Rightarrow> string" where
  "issuesMessage issues = joinLines (map issueMessage issues)"

definition exampleRuntime :: "int runtime" where
  "exampleRuntime = \<lparr>numberToString = integerToString, zodMessage = issuesMessage\<rparr>"

section \<open>Predicates of the claims\<close>

fun isString :: "'n json option \<Rightarrow> bool" where
  "isString (Some (JStr _)) = True"
| "isString _ = False"

fun isNumber :: "'n json option \<Rightarrow> bool" where
  "isNumber (Some (JNum _)) = True"
| "isNumber _ = False"

text \<open>
  The three fields the specification requires of a provider body: \<open>name\<close> a string,
  \<open>main.temp\<close> and \<open>main.humidity\<close> numbers.
\<close>

definition requiredPresent :: "'n json \<Rightarrow> bool" where
  "requiredPresent raw \<longleftrightarrow>
     isString (field ''name'' raw) \<and>
     (case field ''main'' raw of
        Some main \<Rightarrow> isNumber (field ''temp'' main) \<and> isNumber (field ''humidity'' main)
      | None \<Rightarrow> False)"

text \<open>
  What \<open>dataSchema\<close> asks of \<open>weather\<close>: an array, each element of which has a string
  \<open>description\<close>.
\<close>

definition weatherListed :: "'n json \<Rightarrow> bool" where
  "weatherListed raw \<longleftrightarrow>
     (case field ''weather'' raw of
        Some (JArr items) \<Rightarrow> list_all (\<lambda>item. isString (field ''description'' item)) items
      | _ \<Rightarrow> False)"

text \<open>\<open>weather[0].description\<close> of a body, when it is there and a string.\<close>

definition firstDescription :: "'n json \<Rightarrow> string option" where
  "firstDescription raw =
     (case field ''weather'' raw of
        Some (JArr (first # _)) \<Rightarrow>
          (case field ''description'' first of Some (JStr text) \<Rightarrow> Some text | _ \<Rightarrow> None)
      | _ \<Rightarrow> None)"

text \<open>A well-formed provider response: the call succeeded and the body passes \<open>dataSchema\<close>.\<close>

definition wellFormed :: "'n response \<Rightarrow> bool" where
  "wellFormed response \<longleftrightarrow>
     ok response \<and>
     (case json response of
        Inr raw \<Rightarrow> requiredPresent raw \<and> weatherListed raw
      | Inl _ \<Rightarrow> False)"

text \<open>What an element of \<open>weather\<close> is after the parse: its \<open>description\<close> alone.\<close>

definition stripDescription :: "'n json \<Rightarrow> 'n json" where
  "stripDescription item =
     JObj [(''description'',
            (case field ''description'' item of Some text \<Rightarrow> text | None \<Rightarrow> JNull))]"

text \<open>The two envelopes of the handler.\<close>

definition failure :: "string \<Rightarrow> 'n httpResponse" where
  "failure message =
     \<lparr>status = 400,
      responseJson = JObj [(''success'', JBool False), (''error'', JStr message)]\<rparr>"

definition success :: "string \<Rightarrow> 'n httpResponse" where
  "success text =
     \<lparr>status = 200,
      responseJson = JObj [(''success'', JBool True), (''message'', JStr text)]\<rparr>"

text \<open>
  The answer of the handler to what \<open>agent.generate\<close> returns or throws, and the user
  context the middleware reads from the headers of a request.
\<close>

definition respond :: "'n runtime \<Rightarrow> (thrown + string) \<times> string list \<Rightarrow> (thrown + 'n httpResponse) \<times> string list" where
  "respond rt outcome =
     (case outcome of
        (Inl error, requested') \<Rightarrow> (Inr (failure (catchMessage rt error)), requested')
      | (Inr text, requested') \<Rightarrow> (Inr (success text), requested'))"

definition headerUser :: "'n request \<Rightarrow> userContext" where
  "headerUser request =
     \<lparr>userName = (case header request ''X-User-Name'' of Some v \<Rightarrow> v | None \<Rightarrow> ''Anonymous''),
      userRole = (case header request ''X-User-Role'' of Some v \<Rightarrow> v | None \<Rightarrow> ''guest'')\<rparr>"

section \<open>Inputs of the closed examples\<close>

text \<open>A provider that answers every request with status 200 and the given body.\<close>

definition providerReturning :: "'n json \<Rightarrow> string \<Rightarrow> thrown + 'n response" where
  "providerReturning raw url = Inr \<lparr>json = Inr raw, ok = True, statusText = ''OK''\<rparr>"

text \<open>The provider body of Scenario A of the specification.\<close>

definition scenarioABody :: "int json" where
  "scenarioABody = JObj
     [(''name'', JStr ''San Francisco''),
      (''main'', JObj [(''temp'', JNum 72), (''humidity'', JNum 65)]),
      (''weather'', JArr [JObj [(''description'', JStr ''partly cloudy'')]])]"

text \<open>A body with the three required fields and no \<open>weather\<close>; one with an empty \<open>weather\<close>.\<close>

definition noWeatherBody :: "int json" where
  "noWeatherBody = JObj
     [(''name'', JStr ''Paris''),
      (''main'', JObj [(''temp'', JNum 20), (''humidity'', JNum 50)])]"

definition emptyWeatherBody :: "int json" where
  "emptyWeatherBody = JObj
     [(''name'', JStr ''Paris''),
      (''main'', JObj [(''temp'', JNum 20), (''humidity'', JNum 50)]),
      (''weather'', JArr [])]"


definition exampleDependencies :: dependencies where
  "exampleDependencies =
     \<lparr>userName = ''Alice'', userRole = ''admin'',
      weatherApiKey = ''KEY'', temperatureUnit = fahrenheit\<rparr>"

text \<open>Requests: a JSON body with the headers of Scenario A, and a body that is not JSON.\<close>

definition requestWith :: "int json \<Rightarrow> int request" where
  "requestWith reqBody =
     \<lparr>json = Inr reqBody,
      header = [''X-User-Name'' \<mapsto> ''Alice'', ''X-User-Role'' \<mapsto> ''admin'']\<rparr>"

definition malformedRequest :: "int request" where
  "malformedRequest =
     \<lparr>json = Inl ''Unexpected end of JSON input'', header = Map.empty\<rparr>"

definition envWithKey :: "string \<Rightarrow> string \<Rightarrow> string option" where
  "envWithKey k = [''WEATHER_API_KEY'' \<mapsto> k]"

text \<open>
  Two orchestrators: one answers with a fixed text and calls no tool; one calls the
  agent's first tool once, with the given location, and answers with the conditions.
\<close>

definition answering ::
  "string \<Rightarrow> 'n agent \<Rightarrow> string \<Rightarrow> dependencies \<Rightarrow> string list
     \<Rightarrow> (thrown + string) \<times> string list" where
  "answering text a prompt d requested = (Inr text, requested)"

definition callingTool ::
  "string \<Rightarrow> 'n agent \<Rightarrow> string \<Rightarrow> dependencies \<Rightarrow> string list
     \<Rightarrow> (thrown + string) \<times> string list" where
  "callingTool locationArg a prompt d requested =
     (case tools a of
        [] \<Rightarrow> (Inr ''no tool'', requested)
      | (_, t) # _ \<Rightarrow>
          (case execute t locationArg d requested of
             (Inl error, requested') \<Rightarrow> (Inl error, requested')
           | (Inr report, requested') \<Rightarrow> (Inr (conditions report), requested')))"

text \<open>
  An orchestrator that calls the tool for dependencies in Fahrenheit and throws for any
  others.
\<close>

definition celsiusAverse :: "int agent \<Rightarrow> string \<Rightarrow> dependencies \<Rightarrow> string list \<Rightarrow> (thrown + string) \<times> string list" where
  "celsiusAverse a prompt d requested =
     (if temperatureUnit d = fahrenheit then callingTool ''Oslo'' a prompt d requested
      else (Inl NotAnError, requested))"

section \<open>Lemmas on the schemas\<close>

lemma collect_map_Inr: "collect (map Inr vs) = Inr vs"
  by (induction vs) auto

lemma collect_Inr_D: "collect rs = Inr vs \<Longrightarrow> rs = map Inr vs"
  by (induction rs arbitrary: vs) (auto split: sum.splits)

lemma map_sum_collect_Inr:
  "map_sum id f (collect rs) = Inr v \<longleftrightarrow> (\<exists>vs. rs = map Inr vs \<and> v = f vs)"
  by (cases "collect rs") (auto simp: collect_map_Inr dest: collect_Inr_D)

lemma isString_iff: "isString x \<longleftrightarrow> (\<exists>s. x = Some (JStr s))"
  by (cases x rule: isString.cases) auto

lemma isNumber_iff: "isNumber x \<longleftrightarrow> (\<exists>n. x = Some (JNum n))"
  by (cases x rule: isNumber.cases) auto

lemma parse_ZString_Inr: "parse ZString p x = Inr v \<longleftrightarrow> (\<exists>s. x = Some (JStr s) \<and> v = JStr s)"
  by (auto split: option.splits json.splits)

lemma parse_ZNumber_Inr: "parse ZNumber p x = Inr v \<longleftrightarrow> (\<exists>n. x = Some (JNum n) \<and> v = JNum n)"
  by (auto split: option.splits json.splits)

lemma parse_ZArray_Inr:
  "parse (ZArray element) p x = Inr v \<longleftrightarrow>
     (\<exists>items vs. x = Some (JArr items) \<and>
        map (\<lambda>(i, item). parse element (p @ [Index i]) (Some item)) (enumerate 0 items)
          = map Inr vs \<and>
        v = JArr vs)"
  by (auto simp: map_sum_collect_Inr split: option.splits json.splits)

lemma collect1_Inr:
  "map_sum id f (collect [a]) = Inr v \<longleftrightarrow> (\<exists>x. a = Inr x \<and> v = f [x])"
  by (auto split: sum.splits)

lemma collect2_Inr:
  "map_sum id f (collect [a, b]) = Inr v \<longleftrightarrow> (\<exists>x y. a = Inr x \<and> b = Inr y \<and> v = f [x, y])"
  by (auto split: sum.splits)

lemma collect3_Inr:
  "map_sum id f (collect [a, b, c]) = Inr v \<longleftrightarrow>
     (\<exists>x y z. a = Inr x \<and> b = Inr y \<and> c = Inr z \<and> v = f [x, y, z])"
  by (auto split: sum.splits)

lemma parse_object1:
  "parse (ZObject [(k1, s1)]) p x = Inr v \<longleftrightarrow>
     (\<exists>properties a. x = Some (JObj properties) \<and>
        parse s1 (p @ [Key k1]) (map_of properties k1) = Inr a \<and>
        v = JObj [(k1, a)])"
  by (auto simp: collect1_Inr simp del: collect.simps split: option.splits json.splits)

lemma parse_object2:
  "parse (ZObject [(k1, s1), (k2, s2)]) p x = Inr v \<longleftrightarrow>
     (\<exists>properties a b. x = Some (JObj properties) \<and>
        parse s1 (p @ [Key k1]) (map_of properties k1) = Inr a \<and>
        parse s2 (p @ [Key k2]) (map_of properties k2) = Inr b \<and>
        v = JObj [(k1, a), (k2, b)])"
  by (auto simp: collect2_Inr simp del: collect.simps split: option.splits json.splits)

lemma parse_object3:
  "parse (ZObject [(k1, s1), (k2, s2), (k3, s3)]) p x = Inr v \<longleftrightarrow>
     (\<exists>properties a b c. x = Some (JObj properties) \<and>
        parse s1 (p @ [Key k1]) (map_of properties k1) = Inr a \<and>
        parse s2 (p @ [Key k2]) (map_of properties k2) = Inr b \<and>
        parse s3 (p @ [Key k3]) (map_of properties k3) = Inr c \<and>
        v = JObj [(k1, a), (k2, b), (k3, c)])"
  by (auto simp: collect3_Inr simp del: collect.simps split: option.splits json.splits)

declare parse.simps [simp del] collect.simps [simp del]

lemma parse_description_Inr:
  "parse (ZObject [(''description'', ZString)]) p (Some item) = Inr v \<longleftrightarrow>
     isString (field ''description'' item) \<and> v = stripDescription item"
  by (cases item) (auto simp: parse_object1 parse_ZString_Inr isString_iff stripDescription_def)

lemma description_items:
  "map (\<lambda>(i, item). parse (ZObject [(''description'', ZString)]) (pf i) (Some item))
       (enumerate n items) = map Inr vs
   \<longleftrightarrow> list_all (\<lambda>item. isString (field ''description'' item)) items \<and>
       vs = map stripDescription items"
proof (induction items arbitrary: n vs)
  case Nil
  then show ?case by auto
next
  case (Cons item items)
  show ?case
    by (cases vs) (auto simp: Cons.IH parse_description_Inr)
qed

lemma parse_weather_Inr:
  "parse (ZArray (ZObject [(''description'', ZString)])) p x = Inr v \<longleftrightarrow>
     (\<exists>items. x = Some (JArr items) \<and>
        list_all (\<lambda>item. isString (field ''description'' item)) items \<and>
        v = JArr (map stripDescription items))"
  by (auto simp: parse_ZArray_Inr description_items)

lemma parse_main_Inr:
  "parse (ZObject [(''temp'', ZNumber), (''humidity'', ZNumber)]) p x = Inr v \<longleftrightarrow>
     (\<exists>main t h. x = Some main \<and> field ''temp'' main = Some (JNum t) \<and>
        field ''humidity'' main = Some (JNum h) \<and>
        v = JObj [(''temp'', JNum t), (''humidity'', JNum h)])"
proof (cases x)
  case None
  then show ?thesis by (simp add: parse_object2)
next
  case (Some main)
  then show ?thesis
    by (cases main) (auto simp: parse_object2 parse_ZNumber_Inr)
qed

lemma conditionsOf_stripped:
  "list_all (\<lambda>item. isString (field ''description'' item)) items \<Longrightarrow>
   conditionsOf (map stripDescription items) = conditionsOf items"
  by (cases items) (auto simp: isString_iff stripDescription_def)

lemma parse_dataSchema_Inr:
  "parse dataSchema p (Some raw) = Inr v \<longleftrightarrow>
     (\<exists>n t h main items.
        field ''name'' raw = Some (JStr n) \<and>
        field ''main'' raw = Some main \<and>
        field ''temp'' main = Some (JNum t) \<and>
        field ''humidity'' main = Some (JNum h) \<and>
        field ''weather'' raw = Some (JArr items) \<and>
        list_all (\<lambda>item. isString (field ''description'' item)) items \<and>
        v = JObj [(''name'', JStr n),
                  (''main'', JObj [(''temp'', JNum t), (''humidity'', JNum h)]),
                  (''weather'', JArr (map stripDescription items))])"
  unfolding dataSchema_def
  by (cases raw)
    (auto simp: parse_object3 parse_ZString_Inr parse_main_Inr parse_weather_Inr)

lemma parse_dataSchema_succeeds:
  "(\<exists>v. parse dataSchema p (Some raw) = Inr v) \<longleftrightarrow> requiredPresent raw \<and> weatherListed raw"
  unfolding parse_dataSchema_Inr requiredPresent_def weatherListed_def
  by (auto simp: isString_iff isNumber_iff split: option.splits json.splits)

lemma parse_querySchema_Inr:
  "parse querySchema p (Some reqBody) = Inr v \<longleftrightarrow>
     (\<exists>l. field ''location'' reqBody = Some (JStr l) \<and> v = JObj [(''location'', JStr l)])"
  unfolding querySchema_def
  by (cases reqBody) (auto simp: parse_object1 parse_ZString_Inr)

subsection \<open>\<open>fetchWeather\<close>, case by case\<close>

lemma fetchWeather_report:
  assumes "fetch (weatherUrl l k u) = Inr response" "ok response" "json response = Inr raw"
    "field ''name'' raw = Some (JStr n)" "field ''main'' raw = Some main"
    "field ''temp'' main = Some (JNum t)" "field ''humidity'' main = Some (JNum h)"
    "field ''weather'' raw = Some (JArr items)"
    "list_all (\<lambda>item. isString (field ''description'' item)) items"
  shows "fetchWeather rt fetch l k u requested =
    (Inr \<lparr>location = n, temperature = t, conditions = conditionsOf items,
          humidity = numberToString rt h @ ''%'', unit = u\<rparr>, requested @ [weatherUrl l k u])"
proof -
  have "parse dataSchema [] (Some raw) =
      Inr (JObj [(''name'', JStr n),
                 (''main'', JObj [(''temp'', JNum t), (''humidity'', JNum h)]),
                 (''weather'', JArr (map stripDescription items))])"
    using assms by (simp add: parse_dataSchema_Inr)
  then show ?thesis
    using assms by (simp add: fetchWeather_def conditionsOf_stripped)
qed

lemma fetchWeather_rejected:
  "fetch (weatherUrl l k u) = Inl e \<Longrightarrow>
   fetchWeather rt fetch l k u requested = (Inl e, requested @ [weatherUrl l k u])"
  by (simp add: fetchWeather_def)

lemma fetchWeather_not_ok:
  "fetch (weatherUrl l k u) = Inr response \<Longrightarrow> \<not> ok response \<Longrightarrow>
   fetchWeather rt fetch l k u requested =
     (Inl (Error (''Error fetching weather: '' @ statusText response)),
      requested @ [weatherUrl l k u])"
  by (simp add: fetchWeather_def)

lemma fetchWeather_not_json:
  "fetch (weatherUrl l k u) = Inr response \<Longrightarrow> ok response \<Longrightarrow> json response = Inl m \<Longrightarrow>
   fetchWeather rt fetch l k u requested = (Inl (SyntaxError m), requested @ [weatherUrl l k u])"
  by (simp add: fetchWeather_def)

lemma fetchWeather_invalid:
  "fetch (weatherUrl l k u) = Inr response \<Longrightarrow> ok response \<Longrightarrow> json response = Inr raw \<Longrightarrow>
   parse dataSchema [] (Some raw) = Inl issues \<Longrightarrow>
   fetchWeather rt fetch l k u requested = (Inl (ZodError issues), requested @ [weatherUrl l k u])"
  by (simp add: fetchWeather_def)

text \<open>The \<open>TypeError\<close> branch of the model is never taken: only \<open>fetch\<close> can throw one.\<close>

lemma fetchWeather_TypeError:
  assumes "fst (fetchWeather rt fetch l k u requested) = Inl (TypeError m)"
  shows "fetch (weatherUrl l k u) = Inl (TypeError m)"
proof (cases "fetch (weatherUrl l k u)")
  case (Inl e)
  with assms show ?thesis by (simp add: fetchWeather_rejected)
next
  case (Inr response)
  show ?thesis
  proof (cases "ok response")
    case False
    with assms Inr show ?thesis by (simp add: fetchWeather_not_ok)
  next
    case okr: True
    show ?thesis
    proof (cases "json response")
      case (Inl message)
      with assms Inr okr show ?thesis by (simp add: fetchWeather_not_json)
    next
      case raw: (Inr raw)
      show ?thesis
      proof (cases "parse dataSchema [] (Some raw)")
        case (Inl issues)
        with assms Inr okr raw show ?thesis by (simp add: fetchWeather_invalid)
      next
        case v: (Inr v)
        then obtain n t h main items where
          f: "field ''name'' raw = Some (JStr n)" "field ''main'' raw = Some main"
          "field ''temp'' main = Some (JNum t)" "field ''humidity'' main = Some (JNum h)"
          "field ''weather'' raw = Some (JArr items)"
          "list_all (\<lambda>item. isString (field ''description'' item)) items"
          unfolding parse_dataSchema_Inr by blast
        have "fetchWeather rt fetch l k u requested =
            (Inr \<lparr>location = n, temperature = t, conditions = conditionsOf items,
                  humidity = numberToString rt h @ ''%'', unit = u\<rparr>,
             requested @ [weatherUrl l k u])"
          using Inr okr raw f by (rule fetchWeather_report)
        with assms show ?thesis by simp
      qed
    qed
  qed
qed

text \<open>The result of \<open>fetchWeather\<close> does not depend on the state, which it extends by the URL.\<close>

lemma fetchWeather_state:
  "fetchWeather rt fetch l k u requested =
     (fst (fetchWeather rt fetch l k u []), requested @ [weatherUrl l k u])"
proof (cases "fetch (weatherUrl l k u)")
  case (Inl e)
  then show ?thesis by (simp add: fetchWeather_rejected)
next
  case (Inr response)
  show ?thesis
  proof (cases "ok response")
    case False
    with Inr show ?thesis by (simp add: fetchWeather_not_ok)
  next
    case okr: True
    show ?thesis
    proof (cases "json response")
      case (Inl m)
      with Inr okr show ?thesis by (simp add: fetchWeather_not_json)
    next
      case raw: (Inr raw)
      show ?thesis
      proof (cases "parse dataSchema [] (Some raw)")
        case (Inl issues)
        with Inr okr raw show ?thesis by (simp add: fetchWeather_invalid)
      next
        case v: (Inr v)
        then obtain n t h main items where
          f: "field ''name'' raw = Some (JStr n)" "field ''main'' raw = Some main"
          "field ''temp'' main = Some (JNum t)" "field ''humidity'' main = Some (JNum h)"
          "field ''weather'' raw = Some (JArr items)"
          "list_all (\<lambda>item. isString (field ''description'' item)) items"
          unfolding parse_dataSchema_Inr by blast
        have "fetchWeather rt fetch l k u s =
            (Inr \<lparr>location = n, temperature = t, conditions = conditionsOf items,
                  humidity = numberToString rt h @ ''%'', unit = u\<rparr>,
             s @ [weatherUrl l k u])" for s
          using Inr okr raw f by (rule fetchWeather_report)
        then show ?thesis by simp
      qed
    qed
  qed
qed

lemma integerToString_65: "integerToString 65 = ''65''"
  by (simp add: integerToString_def digitsOf.simps[of 65] digitsOf.simps[of 6])

lemma execute_weatherTool:
  "execute (weatherTool rt fetch) l d requested =
     fetchWeather rt fetch l (weatherApiKey d) (temperatureUnit d) requested"
  by (simp add: weatherTool_def)

lemma wellFormed_scenarioA:
  "wellFormed \<lparr>json = Inr scenarioABody, ok = True, statusText = ''OK''\<rparr>"
  by (simp add: wellFormed_def scenarioABody_def requiredPresent_def weatherListed_def)

lemma conditionsOf_firstDescription:
  assumes "field ''weather'' raw = Some (JArr items)"
    and "list_all (\<lambda>item. isString (field ''description'' item)) items"
  shows "conditionsOf items = (case firstDescription raw of None \<Rightarrow> ''unknown'' | Some text \<Rightarrow> text)"
  using assms by (cases items) (auto simp: firstDescription_def isString_iff)

lemma wellFormed_emptyWeather:
  "wellFormed \<lparr>json = Inr emptyWeatherBody, ok = True, statusText = ''OK''\<rparr>"
  by (simp add: wellFormed_def emptyWeatherBody_def requiredPresent_def weatherListed_def)

lemma integerToString_50: "integerToString 50 = ''50''"
  by (simp add: integerToString_def digitsOf.simps[of 50] digitsOf.simps[of 5])

subsection \<open>The handler, case by case\<close>

lemma parse_querySchema_fails:
  "\<not> isString (field ''location'' reqBody) \<Longrightarrow>
   \<exists>issues. parse querySchema p (Some reqBody) = Inl issues"
  by (cases "parse querySchema p (Some reqBody)") (auto simp: parse_querySchema_Inr)

lemma postWeatherTry_invalid:
  "parse querySchema [] (Some reqBody) = Inl issues \<Longrightarrow>
   postWeatherTry rt fetch generate env ctx reqBody requested = (Inl (ZodError issues), requested)"
  by (simp add: postWeatherTry_def)

lemma postWeatherTry_valid:
  assumes "field ''location'' reqBody = Some (JStr l)"
  shows "postWeatherTry rt fetch generate env ctx reqBody requested =
     (case env ''WEATHER_API_KEY'' of
        None \<Rightarrow> (Inl (Error ''Missing WEATHER_API_KEY environment variable''), requested)
      | Some apiKey \<Rightarrow>
          if apiKey = []
          then (Inl (Error ''Missing WEATHER_API_KEY environment variable''), requested)
          else
            (case var ctx of
               None \<Rightarrow> (Inl (TypeError ''Cannot read properties of undefined''), requested)
             | Some user \<Rightarrow>
                 (case generate (agent rt fetch) (''What is the weather in '' @ l @ ''?'')
                         \<lparr>userName = userName user, userRole = userRole user,
                          weatherApiKey = apiKey, temperatureUnit = fahrenheit\<rparr> requested of
                    (Inl error, requested') \<Rightarrow> (Inl error, requested')
                  | (Inr text, requested') \<Rightarrow> (Inr (success text), requested'))))"
proof -
  have "parse querySchema [] (Some reqBody) = Inr (JObj [(''location'', JStr l)])"
    using assms by (simp add: parse_querySchema_Inr)
  then show ?thesis
    by (simp add: postWeatherTry_def success_def Let_def
        split: option.splits prod.splits sum.splits)
qed

lemma postWeather_parsed:
  "json (req ctx) = Inr reqBody \<Longrightarrow>
   postWeather rt fetch generate env ctx requested =
     (case postWeatherTry rt fetch generate env ctx reqBody requested of
        (Inr answer, requested') \<Rightarrow> (Inr answer, requested')
      | (Inl error, requested') \<Rightarrow> (Inr (failure (catchMessage rt error)), requested'))"
  by (simp add: postWeather_def failure_def split: prod.splits sum.splits)

lemma app_postWeather:
  "app rt fetch generate env request requested =
     postWeather rt fetch generate env \<lparr>req = request, var = Some (headerUser request)\<rparr> requested"
  by (simp add: app_def userContextMiddleware_def headerUser_def)

lemma app_invalid:
  assumes "json request = Inr reqBody" "parse querySchema [] (Some reqBody) = Inl issues"
  shows "app rt fetch generate env request requested =
           (Inr (failure (zodMessage rt issues)), requested)"
  using assms by (simp add: app_postWeather postWeather_parsed postWeatherTry_invalid)

lemma app_no_key:
  assumes "json request = Inr reqBody" "field ''location'' reqBody = Some (JStr l)"
    "env ''WEATHER_API_KEY'' = None \<or> env ''WEATHER_API_KEY'' = Some []"
  shows "app rt fetch generate env request requested =
           (Inr (failure ''Missing WEATHER_API_KEY environment variable''), requested)"
  using assms by (auto simp add: app_postWeather postWeather_parsed postWeatherTry_valid)

lemma app_generate:
  assumes "json request = Inr reqBody" "field ''location'' reqBody = Some (JStr l)"
    "env ''WEATHER_API_KEY'' = Some k" "k \<noteq> []"
  shows "app rt fetch generate env request requested =
     respond rt (generate (agent rt fetch) (''What is the weather in '' @ l @ ''?'')
        \<lparr>userName = userName (headerUser request), userRole = userRole (headerUser request),
         weatherApiKey = k, temperatureUnit = fahrenheit\<rparr> requested)"
  using assms
  by (simp add: app_postWeather postWeather_parsed postWeatherTry_valid respond_def
      split: prod.splits sum.splits)

lemma app_cases:
  assumes "json request = Inr reqBody"
  shows "(\<exists>m. app rt fetch generate env request requested = (Inr (failure m), requested)) \<or>
         (\<exists>l k. field ''location'' reqBody = Some (JStr l) \<and> env ''WEATHER_API_KEY'' = Some k \<and> k \<noteq> [] \<and>
            app rt fetch generate env request requested =
              respond rt (generate (agent rt fetch) (''What is the weather in '' @ l @ ''?'')
               \<lparr>userName = userName (headerUser request), userRole = userRole (headerUser request),
                weatherApiKey = k, temperatureUnit = fahrenheit\<rparr> requested))"
proof (cases "parse querySchema [] (Some reqBody)")
  case (Inl issues)
  with assms have "app rt fetch generate env request requested =
      (Inr (failure (zodMessage rt issues)), requested)"
    by (rule app_invalid)
  then show ?thesis by blast
next
  case (Inr v)
  then obtain l where l: "field ''location'' reqBody = Some (JStr l)"
    by (auto simp: parse_querySchema_Inr)
  show ?thesis
  proof (cases "env ''WEATHER_API_KEY'' = None \<or> env ''WEATHER_API_KEY'' = Some []")
    case True
    with assms l have "app rt fetch generate env request requested =
        (Inr (failure ''Missing WEATHER_API_KEY environment variable''), requested)"
      by (rule app_no_key)
    then show ?thesis by blast
  next
    case False
    then obtain k where k: "env ''WEATHER_API_KEY'' = Some k" "k \<noteq> []" by auto
    with assms l have "app rt fetch generate env request requested =
        respond rt (generate (agent rt fetch) (''What is the weather in '' @ l @ ''?'')
          \<lparr>userName = userName (headerUser request), userRole = userRole (headerUser request),
           weatherApiKey = k, temperatureUnit = fahrenheit\<rparr> requested)"
      by (rule app_generate)
    with l k show ?thesis by blast
  qed
qed

text \<open>
  Once the body of the request is JSON, the handler answers with one of its two
  envelopes, whatever fails.
\<close>

lemma app_envelope:
  assumes "json request = Inr reqBody"
  shows "\<exists>answer requested'.
     app rt fetch generate env request requested = (Inr answer, requested') \<and>
     ((\<exists>text. answer = success text) \<or> (\<exists>message. answer = failure message))"
proof -
  from app_cases[OF assms, of rt fetch generate env requested]
  show ?thesis
  proof
    assume "\<exists>m. app rt fetch generate env request requested = (Inr (failure m), requested)"
    then show ?thesis by blast
  next
    assume "\<exists>l k. field ''location'' reqBody = Some (JStr l) \<and>
        env ''WEATHER_API_KEY'' = Some k \<and> k \<noteq> [] \<and>
        app rt fetch generate env request requested =
          respond rt (generate (agent rt fetch) (''What is the weather in '' @ l @ ''?'')
           \<lparr>userName = userName (headerUser request), userRole = userRole (headerUser request),
            weatherApiKey = k, temperatureUnit = fahrenheit\<rparr> requested)"
    then obtain outcome where
      "app rt fetch generate env request requested = respond rt outcome"
      by blast
    then show ?thesis
      by (cases outcome; cases "fst outcome") (auto simp: respond_def)
  qed
qed

lemma weatherUrl_empty:
  "weatherUrl '''' ''KEY'' fahrenheit
     = ''https://api.openweathermap.org/data/2.5/weather?q=&appid=KEY&units=imperial''"
  by (simp add: weatherUrl_def encodeURIComponent_def)

lemma parse_empty_query:
  "parse querySchema [] (Some (JObj [] :: int json))
     = Inl [invalid_type ''string'' ''undefined'' [Key ''location'']]"
  by (simp add: querySchema_def parse.simps collect.simps)

text \<open>
  An orchestrator that hands its dependencies on to the tool has the tool ask the
  provider in imperial units, the units of \<open>fahrenheit\<close>.
\<close>

lemma snd_respond: "snd (respond rt outcome) = snd outcome"
  by (cases outcome; cases "fst outcome") (auto simp: respond_def)

lemma snd_callingTool:
  "snd (callingTool l (agent rt fetch) prompt d requested)
     = requested @ [weatherUrl l (weatherApiKey d) (temperatureUnit d)]"
proof -
  have "execute (weatherTool rt fetch) l d requested =
      (fst (fetchWeather rt fetch l (weatherApiKey d) (temperatureUnit d) []),
       requested @ [weatherUrl l (weatherApiKey d) (temperatureUnit d)])"
    unfolding execute_weatherTool by (rule fetchWeather_state)
  then show ?thesis
    by (simp add: callingTool_def agent_def split: sum.splits)
qed

lemma tool_runs_in_fahrenheit:
  "\<exists>k. snd (app rt fetch (callingTool l') env request requested) = requested \<or>
        snd (app rt fetch (callingTool l') env request requested)
          = requested @ [weatherUrl l' k fahrenheit]"
proof (cases "json request")
  case (Inl m)
  then show ?thesis by (simp add: app_def postWeather_def userContextMiddleware_def)
next
  case (Inr reqBody)
  from app_cases[OF Inr, of rt fetch "callingTool l'" env requested]
  show ?thesis
  proof
    assume "\<exists>m. app rt fetch (callingTool l') env request requested
       = (Inr (failure m), requested)"
    then show ?thesis by auto
  next
    assume "\<exists>l k. field ''location'' reqBody = Some (JStr l) \<and>
        env ''WEATHER_API_KEY'' = Some k \<and> k \<noteq> [] \<and>
        app rt fetch (callingTool l') env request requested =
          respond rt (callingTool l' (agent rt fetch) (''What is the weather in '' @ l @ ''?'')
           \<lparr>userName = userName (headerUser request), userRole = userRole (headerUser request),
            weatherApiKey = k, temperatureUnit = fahrenheit\<rparr> requested)"
    then obtain l k where
      "app rt fetch (callingTool l') env request requested =
          respond rt (callingTool l' (agent rt fetch) (''What is the weather in '' @ l @ ''?'')
           \<lparr>userName = userName (headerUser request), userRole = userRole (headerUser request),
            weatherApiKey = k, temperatureUnit = fahrenheit\<rparr> requested)"
      by blast
    then have "snd (app rt fetch (callingTool l') env request requested)
        = requested @ [weatherUrl l' k fahrenheit]"
      by (simp add: snd_respond snd_callingTool)
    then show ?thesis by blast
  qed
qed

section \<open>The claims\<close>

text \<open>
  C1 says that every failure of a request, that of parsing the body included, is answered
  with \<open>{success: false, error}\<close> and status 400, and that nothing thrown leaves the
  handler. On a body that is not JSON the handler throws the \<open>SyntaxError\<close> of
  \<open>context.req.json()\<close>, which line 179 calls before the \<open>try\<close>.
\<close>

theorem malformed_body_escapes:
  "app rt fetch generate env malformedRequest requested
     = (Inl (SyntaxError ''Unexpected end of JSON input''), requested)"
  by (simp add: app_def postWeather_def userContextMiddleware_def malformedRequest_def)

text \<open>
  C2, as the claim states it, fails: a body with \<open>name\<close>, \<open>main.temp\<close> and
  \<open>main.humidity\<close> and no weather description at all (no \<open>weather\<close> key) does not
  validate, and the tool throws the \<open>ZodError\<close>.
\<close>

theorem three_fields_without_weather_rejected:
  "requiredPresent noWeatherBody \<and>
   firstDescription noWeatherBody = None \<and>
   parse dataSchema [] (Some noWeatherBody)
     = Inl [invalid_type ''array'' ''undefined'' [Key ''weather'']] \<and>
   fst (execute (weatherTool exampleRuntime (providerReturning noWeatherBody))
          ''Paris'' exampleDependencies [])
     = Inl (ZodError [invalid_type ''array'' ''undefined'' [Key ''weather'']])"
proof -
  have p: "parse dataSchema [] (Some noWeatherBody)
     = Inl [invalid_type ''array'' ''undefined'' [Key ''weather'']]"
    by (simp add: dataSchema_def noWeatherBody_def parse.simps collect.simps)
  have "fetchWeather exampleRuntime (providerReturning noWeatherBody) ''Paris'' k u []
      = (Inl (ZodError [invalid_type ''array'' ''undefined'' [Key ''weather'']]),
         [] @ [weatherUrl ''Paris'' k u])" for k u
    by (rule fetchWeather_invalid[where raw = noWeatherBody
          and response = "\<lparr>json = Inr noWeatherBody, ok = True, statusText = ''OK''\<rparr>"])
       (simp_all add: providerReturning_def p)
  then show ?thesis
    using p by (simp add: execute_weatherTool requiredPresent_def firstDescription_def noWeatherBody_def)
qed

text \<open>
  C2, amended. Validation of the provider body succeeds for exactly the bodies that have
  \<open>name\<close> as a string, \<open>main.temp\<close> and \<open>main.humidity\<close> as numbers, and \<open>weather\<close> as an
  array each element of which has a string \<open>description\<close>; and for a successful response
  the tool returns a report for exactly these bodies. The array may be empty: that is
  the body without a description that validates.
\<close>

theorem dataSchema_accepts_iff:
  assumes "fetch (weatherUrl l (weatherApiKey d) (temperatureUnit d)) = Inr response"
    and "ok response" and "json response = Inr raw"
  shows "((\<exists>v. parse dataSchema [] (Some raw) = Inr v)
            \<longleftrightarrow> requiredPresent raw \<and> weatherListed raw) \<and>
         ((\<exists>report. fst (execute (weatherTool rt fetch) l d requested) = Inr report)
            \<longleftrightarrow> requiredPresent raw \<and> weatherListed raw)"
proof -
  have a: "(\<exists>v. parse dataSchema [] (Some raw) = Inr v)
            \<longleftrightarrow> requiredPresent raw \<and> weatherListed raw"
    by (rule parse_dataSchema_succeeds)
  have b: "(\<exists>report. fst (execute (weatherTool rt fetch) l d requested) = Inr report)
            \<longleftrightarrow> (\<exists>v. parse dataSchema [] (Some raw) = Inr v)"
  proof (cases "parse dataSchema [] (Some raw)")
    case (Inl issues)
    with assms show ?thesis
      by (simp add: execute_weatherTool fetchWeather_invalid)
  next
    case (Inr v)
    then obtain n t h main items where
      f: "field ''name'' raw = Some (JStr n)" "field ''main'' raw = Some main"
         "field ''temp'' main = Some (JNum t)" "field ''humidity'' main = Some (JNum h)"
         "field ''weather'' raw = Some (JArr items)"
         "list_all (\<lambda>item. isString (field ''description'' item)) items"
      unfolding parse_dataSchema_Inr by blast
    have "fetchWeather rt fetch l (weatherApiKey d) (temperatureUnit d) requested =
      (Inr \<lparr>location = n, temperature = t, conditions = conditionsOf items,
            humidity = numberToString rt h @ ''%'', unit = temperatureUnit d\<rparr>,
       requested @ [weatherUrl l (weatherApiKey d) (temperatureUnit d)])"
      using assms f by (rule fetchWeather_report)
    with Inr show ?thesis by (simp add: execute_weatherTool)
  qed
  from a b show ?thesis by simp
qed

theorem dataSchema_accepts_iff_witness:
  "(\<exists>v. parse dataSchema [] (Some emptyWeatherBody) = Inr v) \<and>
   (\<exists>report. fst (execute (weatherTool exampleRuntime (providerReturning emptyWeatherBody))
                    ''Paris'' exampleDependencies []) = Inr report) \<and>
   requiredPresent emptyWeatherBody \<and> weatherListed emptyWeatherBody"
proof -
  have v: "requiredPresent emptyWeatherBody \<and> weatherListed emptyWeatherBody"
    by (simp add: emptyWeatherBody_def requiredPresent_def weatherListed_def)
  with dataSchema_accepts_iff[of "providerReturning emptyWeatherBody" "''Paris''"
      exampleDependencies "\<lparr>json = Inr emptyWeatherBody, ok = True, statusText = ''OK''\<rparr>"
      emptyWeatherBody exampleRuntime "[]"]
  show ?thesis by (simp add: providerReturning_def)
qed

text \<open>
  C3, as the claim states it, fails: the body \<open>{"location": ""}\<close> passes
  \<open>querySchema\<close>, whose \<open>location\<close> is a plain \<open>z.string()\<close>; the request is answered
  with status 200, and an orchestrator that passes the empty location on to the tool has
  the provider asked for \<open>q=\<close>, the empty location.
\<close>

theorem empty_location_reaches_provider:
  "app exampleRuntime (providerReturning scenarioABody) (callingTool '''') (envWithKey ''KEY'')
      (requestWith (JObj [(''location'', JStr '''')])) []
   = (Inr (success ''partly cloudy''),
      [''https://api.openweathermap.org/data/2.5/weather?q=&appid=KEY&units=imperial''])"
proof -
  let ?items = "[JObj [(''description'', JStr ''partly cloudy'')]] :: int json list"
  have tool: "fetchWeather exampleRuntime (providerReturning scenarioABody) '''' ''KEY''
          fahrenheit []
        = (Inr \<lparr>location = ''San Francisco'', temperature = 72,
                 conditions = conditionsOf ?items,
                 humidity = numberToString exampleRuntime 65 @ ''%'', unit = fahrenheit\<rparr>,
           [] @ [weatherUrl '''' ''KEY'' fahrenheit])"
    by (rule fetchWeather_report[where raw = scenarioABody
          and response = "\<lparr>json = Inr scenarioABody, ok = True, statusText = ''OK''\<rparr>"
          and main = "JObj [(''temp'', JNum 72), (''humidity'', JNum 65)]"])
       (simp_all add: providerReturning_def scenarioABody_def)
  have "app exampleRuntime (providerReturning scenarioABody) (callingTool '''') (envWithKey ''KEY'')
      (requestWith (JObj [(''location'', JStr '''')])) []
    = respond exampleRuntime (callingTool '''' (agent exampleRuntime (providerReturning scenarioABody))
        (''What is the weather in '' @ '''' @ ''?'')
        \<lparr>userName = userName (headerUser (requestWith (JObj [(''location'', JStr '''')]))),
         userRole = userRole (headerUser (requestWith (JObj [(''location'', JStr '''')]))),
         weatherApiKey = ''KEY'', temperatureUnit = fahrenheit\<rparr> [])"
    by (rule app_generate[where reqBody = "JObj [(''location'', JStr '''')]"])
       (simp_all add: requestWith_def envWithKey_def)
  then show ?thesis
    by (simp add: callingTool_def agent_def execute_weatherTool tool weatherUrl_empty respond_def)
qed

text \<open>
  C3, amended. For every request whose JSON body has no \<open>location\<close>, or one that is not a
  string, the \<open>try\<close> block throws a \<open>ZodError\<close> (the ValidationError) and the request is
  answered with its message and status 400, before any call: the orchestrator is not
  consulted, whatever it is, and the provider has no request more than before.
\<close>

theorem missing_location_rejected_before_any_call:
  assumes "json request = Inr reqBody"
    and "\<not> isString (field ''location'' reqBody)"
  shows "\<exists>issues.
     postWeatherTry rt fetch generate env (userContextMiddleware \<lparr>req = request, var = None\<rparr>)
        reqBody requested = (Inl (ZodError issues), requested) \<and>
     app rt fetch generate env request requested
       = (Inr (failure (zodMessage rt issues)), requested)"
proof -
  from assms(2) obtain issues where i: "parse querySchema [] (Some reqBody) = Inl issues"
    using parse_querySchema_fails by blast
  with assms(1) show ?thesis
    by (simp add: postWeatherTry_invalid app_invalid)
qed

theorem missing_location_rejected_before_any_call_witness:
  "\<not> isString (field ''location'' (JObj [] :: int json)) \<and>
   app exampleRuntime (providerReturning scenarioABody) (callingTool ''Oslo'')
        (envWithKey ''KEY'') (requestWith (JObj [])) []
     = (Inr (failure ''Required''), [])"
proof -
  let ?ctx = "userContextMiddleware \<lparr>req = requestWith (JObj []), var = None\<rparr>"
  have missing: "\<not> isString (field ''location'' (JObj [] :: int json))"
    by simp
  with missing_location_rejected_before_any_call[of "requestWith (JObj [])" "JObj []"
      exampleRuntime "providerReturning scenarioABody" "callingTool ''Oslo''"
      "envWithKey ''KEY''" "[]"]
  obtain issues where
    thrown: "postWeatherTry exampleRuntime (providerReturning scenarioABody)
        (callingTool ''Oslo'') (envWithKey ''KEY'') ?ctx (JObj []) []
      = (Inl (ZodError issues), [])"
    and answer: "app exampleRuntime (providerReturning scenarioABody) (callingTool ''Oslo'')
        (envWithKey ''KEY'') (requestWith (JObj [])) []
      = (Inr (failure (zodMessage exampleRuntime issues)), [])"
    by (auto simp: requestWith_def)
  from thrown have "issues = [invalid_type ''string'' ''undefined'' [Key ''location'']]"
    by (simp add: postWeatherTry_invalid[OF parse_empty_query])
  with answer missing show ?thesis
    by (simp add: exampleRuntime_def issuesMessage_def)
qed

text \<open>
  C4, as the claim states it, fails: the body is validated before the secret is looked
  up, so with the secret absent and the body \<open>{}\<close> the \<open>try\<close> block throws the
  \<open>ZodError\<close> of the missing \<open>location\<close>, and the answer carries its message, not
  "Missing WEATHER_API_KEY environment variable".
\<close>

theorem validation_precedes_configuration:
  "postWeatherTry exampleRuntime (providerReturning scenarioABody) (answering ''sunny'') Map.empty
      (userContextMiddleware \<lparr>req = requestWith (JObj []), var = None\<rparr>) (JObj []) []
     = (Inl (ZodError [invalid_type ''string'' ''undefined'' [Key ''location'']]), []) \<and>
   app exampleRuntime (providerReturning scenarioABody) (answering ''sunny'') Map.empty
      (requestWith (JObj [])) []
     = (Inr (failure ''Required''), []) \<and>
   (failure ''Required'' :: int httpResponse)
     \<noteq> failure ''Missing WEATHER_API_KEY environment variable''"
proof -
  have "app exampleRuntime (providerReturning scenarioABody) (answering ''sunny'') Map.empty
      (requestWith (JObj [])) []
     = (Inr (failure (zodMessage exampleRuntime
          [invalid_type ''string'' ''undefined'' [Key ''location'']])), [])"
    by (rule app_invalid[where reqBody = "JObj []"])
       (simp_all add: requestWith_def parse_empty_query)
  then show ?thesis
    by (simp add: postWeatherTry_invalid parse_empty_query exampleRuntime_def issuesMessage_def
        failure_def)
qed

text \<open>
  C4, amended. For every request whose body passes \<open>querySchema\<close>: when the secret is
  absent (unset, or the empty string) the answer is \<open>{success: false, error: "Missing
  WEATHER_API_KEY environment variable"}\<close> with status 400 and nothing is called; when it
  is present the bag is assembled from the secret, the unit \<open>fahrenheit\<close> and the user
  context of the headers, it passes \<open>depsSchema\<close>, and the answer is that of the
  orchestrator called with it.
\<close>

theorem configuration_error_iff_secret_absent:
  assumes "json request = Inr reqBody"
    and "field ''location'' reqBody = Some (JStr l)"
  shows "(env ''WEATHER_API_KEY'' = None \<or> env ''WEATHER_API_KEY'' = Some [] \<longrightarrow>
            app rt fetch generate env request requested
              = (Inr (failure ''Missing WEATHER_API_KEY environment variable''), requested)) \<and>
         (\<forall>k. env ''WEATHER_API_KEY'' = Some k \<and> k \<noteq> [] \<longrightarrow>
            (\<exists>bag. bag = \<lparr>userName = userName (headerUser request),
                          userRole = userRole (headerUser request),
                          weatherApiKey = k, temperatureUnit = fahrenheit\<rparr> \<and>
               parse depsSchema [] (Some (dependenciesJson bag :: 'n json))
                 = Inr (dependenciesJson bag) \<and>
               app rt fetch generate env request requested
                 = respond rt (generate (agent rt fetch)
                     (''What is the weather in '' @ l @ ''?'') bag requested)))"
proof -
  have valid: "parse depsSchema [] (Some (dependenciesJson bag :: 'n json))
      = Inr (dependenciesJson bag)" for bag
    by (cases "temperatureUnit bag")
       (simp_all add: depsSchema_def dependenciesJson_def parse.simps collect.simps)
  show ?thesis
    using assms by (auto simp: app_no_key app_generate valid)
qed

theorem configuration_error_iff_secret_absent_witness:
  "app exampleRuntime (providerReturning scenarioABody) (answering ''sunny'') Map.empty
      (requestWith (JObj [(''location'', JStr ''Oslo'')])) []
     = (Inr (failure ''Missing WEATHER_API_KEY environment variable''), []) \<and>
   app exampleRuntime (providerReturning scenarioABody) (answering ''sunny'') (envWithKey ''KEY'')
      (requestWith (JObj [(''location'', JStr ''Oslo'')])) []
     = (Inr (success ''sunny''), []) \<and>
   parse depsSchema [] (Some (dependenciesJson exampleDependencies :: int json))
     = Inr (dependenciesJson exampleDependencies)"
proof -
  have a: "app exampleRuntime (providerReturning scenarioABody) (answering ''sunny'') Map.empty
      (requestWith (JObj [(''location'', JStr ''Oslo'')])) []
     = (Inr (failure ''Missing WEATHER_API_KEY environment variable''), [])"
    using configuration_error_iff_secret_absent[of
        "requestWith (JObj [(''location'', JStr ''Oslo'')])"
        "JObj [(''location'', JStr ''Oslo'')]" "''Oslo''" Map.empty exampleRuntime
        "providerReturning scenarioABody" "answering ''sunny''" "[]"]
    by (simp add: requestWith_def)
  have b: "parse depsSchema [] (Some (dependenciesJson exampleDependencies :: int json))
       = Inr (dependenciesJson exampleDependencies) \<and>
     app exampleRuntime (providerReturning scenarioABody) (answering ''sunny'') (envWithKey ''KEY'')
      (requestWith (JObj [(''location'', JStr ''Oslo'')])) []
     = (Inr (success ''sunny''), [])"
    using configuration_error_iff_secret_absent[of
        "requestWith (JObj [(''location'', JStr ''Oslo'')])"
        "JObj [(''location'', JStr ''Oslo'')]" "''Oslo''" "envWithKey ''KEY''" exampleRuntime
        "providerReturning scenarioABody" "answering ''sunny''" "[]"]
    by (simp add: requestWith_def envWithKey_def headerUser_def exampleDependencies_def
        answering_def respond_def)
  from a b show ?thesis by simp
qed

text \<open>
  C5. Scenario A: for the location "San Francisco" and dependencies whose
  \<open>temperatureUnit\<close> is \<open>fahrenheit\<close>, when the provider returns
  \<open>{name: "San Francisco", main: {temp: 72, humidity: 65}, weather: [{description:
  "partly cloudy"}]}\<close>, the Weather Tool returns exactly \<open>{location: "San Francisco",
  temperature: 72, conditions: "partly cloudy", humidity: "65%", unit: "fahrenheit"}\<close>.
\<close>

theorem scenarioA_report:
  "fst (execute (weatherTool exampleRuntime (providerReturning scenarioABody))
          ''San Francisco'' (d\<lparr>temperatureUnit := fahrenheit\<rparr>) requested)
   = Inr \<lparr>location = ''San Francisco'', temperature = 72, conditions = ''partly cloudy'',
          humidity = ''65%'', unit = fahrenheit\<rparr>"
proof -
  let ?items = "[JObj [(''description'', JStr ''partly cloudy'')]] :: int json list"
  have "fetchWeather exampleRuntime (providerReturning scenarioABody) ''San Francisco''
          (weatherApiKey d) fahrenheit requested
        = (Inr \<lparr>location = ''San Francisco'', temperature = 72,
                 conditions = conditionsOf ?items,
                 humidity = numberToString exampleRuntime 65 @ ''%'', unit = fahrenheit\<rparr>,
           requested @ [weatherUrl ''San Francisco'' (weatherApiKey d) fahrenheit])"
    by (rule fetchWeather_report[where raw = scenarioABody
          and response = "\<lparr>json = Inr scenarioABody, ok = True, statusText = ''OK''\<rparr>"
          and main = "JObj [(''temp'', JNum 72), (''humidity'', JNum 65)]"])
       (simp_all add: providerReturning_def scenarioABody_def)
  then show ?thesis
    by (simp add: execute_weatherTool exampleRuntime_def integerToString_65)
qed



text \<open>
  C7. For every non-empty location and every well-formed provider response, the Weather
  Tool returns a report, and its \<open>unit\<close> is the \<open>temperatureUnit\<close> of the dependencies
  of the call.
\<close>

theorem unit_follows_dependencies:
  assumes "locationArg \<noteq> []"
    and "fetch (weatherUrl locationArg (weatherApiKey d) (temperatureUnit d)) = Inr response"
    and "wellFormed response"
  shows "\<exists>report. fst (execute (weatherTool rt fetch) locationArg d requested) = Inr report
           \<and> unit report = temperatureUnit d"
proof -
  from assms(3) obtain raw where raw: "ok response" "json response = Inr raw"
    "requiredPresent raw" "weatherListed raw"
    by (auto simp: wellFormed_def split: sum.splits)
  then obtain v where "parse dataSchema [] (Some raw) = Inr v"
    using parse_dataSchema_succeeds by blast
  then obtain n t h main items where
    f: "field ''name'' raw = Some (JStr n)" "field ''main'' raw = Some main"
       "field ''temp'' main = Some (JNum t)" "field ''humidity'' main = Some (JNum h)"
       "field ''weather'' raw = Some (JArr items)"
       "list_all (\<lambda>item. isString (field ''description'' item)) items"
    unfolding parse_dataSchema_Inr by blast
  have "fetchWeather rt fetch locationArg (weatherApiKey d) (temperatureUnit d) requested =
      (Inr \<lparr>location = n, temperature = t, conditions = conditionsOf items,
            humidity = numberToString rt h @ ''%'', unit = temperatureUnit d\<rparr>,
       requested @ [weatherUrl locationArg (weatherApiKey d) (temperatureUnit d)])"
    using assms(2) raw(1,2) f by (rule fetchWeather_report)
  then show ?thesis by (simp add: execute_weatherTool)
qed

theorem unit_follows_dependencies_witness:
  "\<exists>report. fst (execute (weatherTool exampleRuntime (providerReturning scenarioABody))
                    ''Oslo'' (exampleDependencies\<lparr>temperatureUnit := celsius\<rparr>) []) = Inr report
     \<and> unit report = celsius"
  using unit_follows_dependencies[of "''Oslo''" "providerReturning scenarioABody"
      "exampleDependencies\<lparr>temperatureUnit := celsius\<rparr>"
      "\<lparr>json = Inr scenarioABody, ok = True, statusText = ''OK''\<rparr>" exampleRuntime "[]"]
    wellFormed_scenarioA
  by (simp add: providerReturning_def)

text \<open>
  C8. For every provider response that passes validation, the tool returns a report; when
  the body has no \<open>weather[0].description\<close> its \<open>conditions\<close> is exactly "unknown", and
  when it has one \<open>conditions\<close> is that description. Nothing else is defaulted:
  \<open>location\<close>, \<open>temperature\<close> and \<open>humidity\<close> are the body's \<open>name\<close>, \<open>main.temp\<close> and
  \<open>main.humidity\<close> (printed, with a percent sign), and \<open>unit\<close> is the dependencies'
  \<open>temperatureUnit\<close>.
\<close>

theorem unknown_is_the_only_default:
  assumes "fetch (weatherUrl l (weatherApiKey d) (temperatureUnit d)) = Inr response"
    and "wellFormed response"
    and "json response = Inr raw"
  shows "\<exists>report main h.
     fst (execute (weatherTool rt fetch) l d requested) = Inr report \<and>
     (firstDescription raw = None \<longrightarrow> conditions report = ''unknown'') \<and>
     (\<forall>text. firstDescription raw = Some text \<longrightarrow> conditions report = text) \<and>
     field ''name'' raw = Some (JStr (location report)) \<and>
     field ''main'' raw = Some main \<and>
     field ''temp'' main = Some (JNum (temperature report)) \<and>
     field ''humidity'' main = Some (JNum h) \<and>
     humidity report = numberToString rt h @ ''%'' \<and>
     unit report = temperatureUnit d"
proof -
  from assms(2,3) have raw: "ok response" "requiredPresent raw" "weatherListed raw"
    by (auto simp: wellFormed_def)
  then obtain v where "parse dataSchema [] (Some raw) = Inr v"
    using parse_dataSchema_succeeds by blast
  then obtain n t h main items where
    f: "field ''name'' raw = Some (JStr n)" "field ''main'' raw = Some main"
       "field ''temp'' main = Some (JNum t)" "field ''humidity'' main = Some (JNum h)"
       "field ''weather'' raw = Some (JArr items)"
       "list_all (\<lambda>item. isString (field ''description'' item)) items"
    unfolding parse_dataSchema_Inr by blast
  have "fetchWeather rt fetch l (weatherApiKey d) (temperatureUnit d) requested =
      (Inr \<lparr>location = n, temperature = t, conditions = conditionsOf items,
            humidity = numberToString rt h @ ''%'', unit = temperatureUnit d\<rparr>,
       requested @ [weatherUrl l (weatherApiKey d) (temperatureUnit d)])"
    using assms(1) raw(1) assms(3) f by (rule fetchWeather_report)
  then show ?thesis
    using f by (simp add: execute_weatherTool conditionsOf_firstDescription[OF f(5,6)])
qed

theorem unknown_is_the_only_default_witness:
  "firstDescription emptyWeatherBody = None \<and>
   fst (execute (weatherTool exampleRuntime (providerReturning emptyWeatherBody))
          ''Paris'' exampleDependencies [])
     = Inr \<lparr>location = ''Paris'', temperature = 20, conditions = ''unknown'',
            humidity = ''50%'', unit = fahrenheit\<rparr>"
proof -
  have none: "firstDescription emptyWeatherBody = None"
    by (simp add: firstDescription_def emptyWeatherBody_def)
  from unknown_is_the_only_default[of "providerReturning emptyWeatherBody" "''Paris''"
      exampleDependencies "\<lparr>json = Inr emptyWeatherBody, ok = True, statusText = ''OK''\<rparr>"
      emptyWeatherBody exampleRuntime "[]"] wellFormed_emptyWeather
  obtain report main h where
    r: "fst (execute (weatherTool exampleRuntime (providerReturning emptyWeatherBody))
          ''Paris'' exampleDependencies []) = Inr report"
      "conditions report = ''unknown''"
      "field ''name'' emptyWeatherBody = Some (JStr (location report))"
      "field ''main'' emptyWeatherBody = Some main"
      "field ''temp'' main = Some (JNum (temperature report))"
      "field ''humidity'' main = Some (JNum h)"
      "humidity report = numberToString exampleRuntime h @ ''%''"
      "unit report = temperatureUnit exampleDependencies"
    using none by (auto simp: providerReturning_def)
  from r(3-8) have "report = \<lparr>location = ''Paris'', temperature = 20, conditions = ''unknown'',
            humidity = ''50%'', unit = fahrenheit\<rparr>"
    using r(2)
    by (cases report) (auto simp: emptyWeatherBody_def exampleRuntime_def integerToString_50 exampleDependencies_def)
  with r(1) none show ?thesis by simp
qed

text \<open>
  C9. Two calls of the Weather Tool with the same location and dependencies against the
  same provider give the same result: the second call, run in the state the first one
  left, returns what the first returned; the result does not depend on the state at all;
  and all a call leaves behind is one more request to the provider.
\<close>

theorem repeated_call_same_report:
  "fst (execute (weatherTool rt fetch) l d
          (snd (execute (weatherTool rt fetch) l d requested)))
     = fst (execute (weatherTool rt fetch) l d requested)
   \<and> fst (execute (weatherTool rt fetch) l d requested')
     = fst (execute (weatherTool rt fetch) l d requested)
   \<and> snd (execute (weatherTool rt fetch) l d requested)
     = requested @ [weatherUrl l (weatherApiKey d) (temperatureUnit d)]"
proof -
  have "execute (weatherTool rt fetch) l d s =
      (fst (fetchWeather rt fetch l (weatherApiKey d) (temperatureUnit d) []),
       s @ [weatherUrl l (weatherApiKey d) (temperatureUnit d)])" for s
    unfolding execute_weatherTool by (rule fetchWeather_state)
  then show ?thesis by simp
qed

text \<open>
  C10. Whatever the headers, the body and the environment of a request, the orchestrator
  is only ever given dependencies whose \<open>temperatureUnit\<close> is \<open>fahrenheit\<close>: two
  orchestrators that agree on all such dependencies give the same answer and the same
  requests to the provider. And the tool, called by an orchestrator with the
  dependencies the orchestrator was given (\<open>callingTool\<close>), runs with \<open>fahrenheit\<close>: the
  one request it makes, if any, is the one for that unit.
\<close>

theorem orchestrator_sees_fahrenheit:
  assumes "\<forall>a prompt d s. temperatureUnit d = fahrenheit \<longrightarrow> g a prompt d s = g' a prompt d s"
  shows "app rt fetch g env request requested = app rt fetch g' env request requested \<and>
         (\<exists>k. snd (app rt fetch (callingTool l') env request requested) = requested \<or>
               snd (app rt fetch (callingTool l') env request requested)
                 = requested @ [weatherUrl l' k fahrenheit])"
proof -
  have "app rt fetch g env request requested = app rt fetch g' env request requested"
  proof (cases "json request")
    case (Inl m)
    then show ?thesis by (simp add: app_def postWeather_def userContextMiddleware_def)
  next
    case (Inr reqBody)
    show ?thesis
    proof (cases "parse querySchema [] (Some reqBody)")
      case (Inl issues)
      with Inr show ?thesis by (simp add: app_invalid)
    next
      case v: (Inr v)
      then obtain l where l: "field ''location'' reqBody = Some (JStr l)"
        by (auto simp: parse_querySchema_Inr)
      show ?thesis
      proof (cases "env ''WEATHER_API_KEY'' = None \<or> env ''WEATHER_API_KEY'' = Some []")
        case True
        with Inr l show ?thesis by (simp add: app_no_key)
      next
        case False
        then obtain k where "env ''WEATHER_API_KEY'' = Some k" "k \<noteq> []" by auto
        with Inr l assms show ?thesis by (simp add: app_generate)
      qed
    qed
  qed
  then show ?thesis
    using tool_runs_in_fahrenheit by blast
qed

theorem orchestrator_sees_fahrenheit_witness:
  "app exampleRuntime (providerReturning scenarioABody) celsiusAverse (envWithKey ''KEY'')
      (requestWith (JObj [(''location'', JStr ''Oslo'')])) []
   = app exampleRuntime (providerReturning scenarioABody) (callingTool ''Oslo'')
      (envWithKey ''KEY'') (requestWith (JObj [(''location'', JStr ''Oslo'')])) []"
proof -
  have "\<forall>a prompt d s. temperatureUnit d = fahrenheit \<longrightarrow>
      celsiusAverse a prompt d s = callingTool ''Oslo'' a prompt d s"
    by (simp add: celsiusAverse_def)
  from orchestrator_sees_fahrenheit[OF this] show ?thesis
    by blast
qed

end
